theory Spec2Isabelle
  imports Main
begin

section \<open>Values of the JavaScript runtime\<close>

text \<open>
  The account routes of \<^verbatim>\<open>src/lib/users.js\<close> exchange JSON values with the request and
  with the token payload. A parsed JSON value is one of the following; a property that is
  absent (\<^verbatim>\<open>undefined\<close>) is \<open>None\<close> of \<open>json option\<close>. Numbers are restricted to
  integers and times are milliseconds since the epoch; an Invalid Date (time value NaN)
  is \<open>None\<close> of \<open>int option\<close>.
\<close>

datatype json = JNull | JBool bool | JNum int | JStr string
  | JArr "json list" | JObj "(string \<times> json) list"

text \<open>
  The built-ins of Node the routes call. They are not code of the repository, so they are
  parameters of the model: \<open>createCipher alg pw s\<close> is
  \<^verbatim>\<open>c = crypto.createCipher(alg, pw); c.update(s, 'utf8', 'hex') + c.final('hex')\<close>,
  \<open>createDecipher alg pw h\<close> is the same with \<^verbatim>\<open>createDecipher\<close> and
  \<^verbatim>\<open>('hex', 'utf8')\<close>; \<open>None\<close> is a thrown exception (unknown algorithm, bad input,
  bad decrypt). \<open>JSON_parse\<close> is \<open>None\<close> on a SyntaxError. \<open>Date_parse\<close> is \<open>None\<close> for NaN.
  \<open>LocalTime\<close> and \<open>UTC\<close> are the two conversions of the local time zone: from a time
  value to local time and back (they differ from the identity by the offset of the zone,
  which changes at a daylight-saving transition).
  \<open>replace t p r\<close> is \<^verbatim>\<open>t.replace(/p/g, r)\<close> for the literal placeholder \<open>p\<close>.
\<close>

record runtime =
  createCipher :: "string \<Rightarrow> string \<Rightarrow> string \<Rightarrow> string option"
  createDecipher :: "string \<Rightarrow> string \<Rightarrow> string \<Rightarrow> string option"
  JSON_stringify :: "json \<Rightarrow> string"
  JSON_parse :: "string \<Rightarrow> json option"
  toISOString :: "int \<Rightarrow> string"
  Date_parse :: "string \<Rightarrow> int option"
  ToString :: "json \<Rightarrow> string"
  LocalTime :: "int \<Rightarrow> int"
  UTC :: "int \<Rightarrow> int"
  encodeURIComponent :: "string \<Rightarrow> string"
  replace :: "string \<Rightarrow> string \<Rightarrow> string \<Rightarrow> string"

text \<open>
  A time value outside the range of \<^verbatim>\<open>Date\<close> (100 000 000 days on either side of the
  epoch) makes the date invalid.
\<close>

definition TimeClip :: "int \<Rightarrow> int option" where
  "TimeClip t = (if \<bar>t\<bar> \<le> 8640000000000000 then Some t else None)"

text \<open>\<^verbatim>\<open>new Date(v)\<close> for a JSON value or \<^verbatim>\<open>undefined\<close>.\<close>

fun newDate :: "runtime \<Rightarrow> json option \<Rightarrow> int option" where
  "newDate rt None = None"
| "newDate rt (Some JNull) = Some 0"
| "newDate rt (Some (JBool b)) = Some (if b then 1 else 0)"
| "newDate rt (Some (JNum n)) = TimeClip n"
| "newDate rt (Some (JStr s)) = Date_parse rt s"
| "newDate rt (Some (JArr xs)) = Date_parse rt (ToString rt (JArr xs))"
| "newDate rt (Some (JObj kvs)) = Date_parse rt (ToString rt (JObj kvs))"

text \<open>\<^verbatim>\<open>a >= b\<close> on two dates: false as soon as one of them is invalid.\<close>

fun date_ge :: "int option \<Rightarrow> int option \<Rightarrow> bool" where
  "date_ge (Some a) (Some b) = (a \<ge> b)"
| "date_ge _ _ = False"

text \<open>
  \<^verbatim>\<open>d.setMinutes(d.getMinutes() + t)\<close> on \<^verbatim>\<open>d = new Date()\<close>, where \<open>t\<close> is a number
  of the configuration or is missing (\<^verbatim>\<open>undefined\<close>: the sum is NaN and the date
  becomes invalid). The minutes are added to the local time, which is then converted
  back and clipped to the range of \<^verbatim>\<open>Date\<close>.
\<close>

fun addMinutes :: "runtime \<Rightarrow> int \<Rightarrow> int option \<Rightarrow> int option" where
  "addMinutes rt now None = None"
| "addMinutes rt now (Some t) = TimeClip (UTC rt (LocalTime rt now + t * 60000))"

text \<open>
  \<^verbatim>\<open>moment(d).add('minutes', t)\<close>, which adds \<open>t\<close> times 60000 ms to the time value.
\<close>

definition moment_add_minutes :: "int \<Rightarrow> int \<Rightarrow> int option" where
  "moment_add_minutes d t = Some (d + t * 60000)"

text \<open>\<^verbatim>\<open>Date.prototype.toJSON\<close>: the ISO string, \<^verbatim>\<open>null\<close> for an invalid date.\<close>

fun date_toJSON :: "runtime \<Rightarrow> int option \<Rightarrow> json" where
  "date_toJSON rt None = JNull"
| "date_toJSON rt (Some t) = JStr (toISOString rt t)"

text \<open>
  \<^verbatim>\<open>token.p\<close> on a parsed value: a TypeError on \<^verbatim>\<open>null\<close> (\<open>Inl\<close>), the last binding
  of \<open>p\<close> in an object, \<^verbatim>\<open>undefined\<close> otherwise.
\<close>

fun getProperty :: "json \<Rightarrow> string \<Rightarrow> string + json option" where
  "getProperty JNull p = Inl ''TypeError''"
| "getProperty (JObj kvs) p = Inr (map_of (rev kvs) p)"
| "getProperty _ p = Inr None"

section \<open>Data model\<close>

text \<open>
  An account document. \<open>acl\<close> is the object \<^verbatim>\<open>_acl\<close> of the access-control plugin, from
  keys to permissions; \<open>created\<close> and \<open>modified\<close> are the fields \<^verbatim>\<open>_created\<close> and
  \<^verbatim>\<open>_modified\<close> of the timestamp plugin.
\<close>

record user =
  uid :: string
  email :: string
  firstName :: "string option"
  lastName :: "string option"
  roles :: "string list option"
  isConfirmed :: bool
  created :: "int option"
  modified :: "int option"
  lastLogin :: "int option"
  hash :: string
  acl :: "(string \<times> string list) list"

record attachment =
  alternative :: bool
  data :: string

record mail_message =
  enabled :: bool
  mtext :: string
  mto :: string
  attachment :: "attachment list option"

record messages =
  passwordResetRequest :: "mail_message option"
  confirmEmail_message :: "mail_message option"

record mail_settings =
  messages :: "messages option"

record token_settings =
  timeout :: "int option"
  algorithm :: string
  password :: string

record authentication =
  resetPasswordToken :: "token_settings option"
  confirmEmailToken :: "token_settings option"

record settings =
  mail :: "mail_settings option"
  authentication :: authentication

text \<open>
  The collaborators behind the account store, the credential plugin and the mail
  transport. Each \<open>_error\<close> field is the error the collaborator hands to the callback, if
  any. \<open>cast_id\<close> is the cast of a query id to a document id (\<open>Inl\<close>: a cast error handed
  to the callback). \<open>authenticate_error\<close> is an error of the hashing itself; a password
  that does not match is reported by the credential plugin as \<^verbatim>\<open>cb(null, false, info)\<close>.
  \<open>readFilter profile\<close> is \<^verbatim>\<open>applyReadFilter(profile)\<close>, a projection of the document in
  memory that does not reach the store. \<open>document_toString\<close> is the string a document
  becomes where a string is expected, and \<open>refuses_key\<close> tells the field names the
  database driver refuses on insert.
\<close>

record collaborators =
  find_error :: "string option"
  cast_id :: "json option \<Rightarrow> string + string"
  save_error :: "string option"
  setPassword_error :: "string \<Rightarrow> string option"
  register_error :: "string option"
  authenticate_error :: "string option"
  hash_password :: "string \<Rightarrow> string"
  send_error :: "mail_message \<Rightarrow> string option"
  readFilter :: "string \<Rightarrow> user \<Rightarrow> user"
  document_toString :: "user \<Rightarrow> string"
  refuses_key :: "string \<Rightarrow> bool"

record server =
  settings :: settings
  runtime :: runtime
  collab :: collaborators

record body =
  body_email :: string
  body_password :: string
  body_token :: string
  body_role :: string
  oldPassword :: string
  newPassword :: string
  body_doc :: user

text \<open>
  \<open>body_doc\<close> is the document \<^verbatim>\<open>new UserModel(request.body)\<close> materialises from the
  body. \<open>req_user\<close> is \<^verbatim>\<open>request.user\<close>.
\<close>

record request =
  body :: body
  req_user :: "user option"

datatype event =
    EvFindById "json option"
  | EvFindOne string
  | EvRegister user
  | EvAuthenticate string
  | EvSetPassword string
  | EvSave user
  | EvSend mail_message
  | EvLogout

text \<open>
  The world the routes act on: the persisted accounts in document order, the account of
  the session, and the calls made to the collaborators, oldest first.
\<close>

record world =
  users :: "user list"
  session :: "string option"
  trace :: "event list"

datatype payload = PUser user | PBool bool | PUndefined

datatype response = ServerResult payload | ServerError string nat

text \<open>
  A route either answers through \<^verbatim>\<open>server.result\<close> / \<^verbatim>\<open>server.error\<close> or lets an
  exception escape without having answered.
\<close>

datatype outcome = Responded response | Thrown string

section \<open>Collaborator calls\<close>

definition emit :: "event \<Rightarrow> world \<Rightarrow> world" where
  "emit e w = w\<lparr>trace := trace w @ [e]\<rparr>"

definition findById :: "server \<Rightarrow> json option \<Rightarrow> world \<Rightarrow> (string + user option) \<times> world" where
  "findById srv i w =
     (let w1 = emit (EvFindById i) w in
      case find_error (collab srv) of
        Some e \<Rightarrow> (Inl e, w1)
      | None \<Rightarrow>
          (case cast_id (collab srv) i of
             Inl e \<Rightarrow> (Inl e, w1)
           | Inr k \<Rightarrow> (Inr (find (\<lambda>u. uid u = k) (users w1)), w1)))"

definition findOne :: "server \<Rightarrow> string \<Rightarrow> world \<Rightarrow> (string + user option) \<times> world" where
  "findOne srv e w =
     (let w1 = emit (EvFindOne e) w in
      case find_error (collab srv) of
        Some err \<Rightarrow> (Inl err, w1)
      | None \<Rightarrow> (Inr (find (\<lambda>u. email u = e) (users w1)), w1))"

text \<open>
  The timestamp plugin, plugged with \<^verbatim>\<open>created: '_created'\<close> and
  \<^verbatim>\<open>lastUpdated: '_modified'\<close>: before a document is written, \<^verbatim>\<open>_created\<close> is stamped
  when it is absent and \<^verbatim>\<open>_modified\<close> is stamped.
\<close>

definition stamp :: "int \<Rightarrow> user \<Rightarrow> user" where
  "stamp now u =
     (case created u of
        None \<Rightarrow> u\<lparr>created := Some now, modified := Some now\<rparr>
      | Some c \<Rightarrow> u\<lparr>modified := Some now\<rparr>)"

text \<open>\<^verbatim>\<open>doc.save(cb)\<close> of a document that was read from the store: an update by id.\<close>

definition save :: "server \<Rightarrow> int \<Rightarrow> user \<Rightarrow> world \<Rightarrow> string option \<times> world" where
  "save srv now u w =
     (let w1 = emit (EvSave u) w in
      case save_error (collab srv) of
        Some e \<Rightarrow> (Some e, w1)
      | None \<Rightarrow>
          (None, w1\<lparr>users := map (\<lambda>v. if uid v = uid u then stamp now u else v) (users w1)\<rparr>))"

text \<open>\<^verbatim>\<open>doc.setPassword(pw, cb)\<close>: the new credential is set on the document in memory.\<close>

definition setPassword :: "server \<Rightarrow> user \<Rightarrow> string \<Rightarrow> world \<Rightarrow> (string + user option) \<times> world" where
  "setPassword srv u pw w =
     (let w1 = emit (EvSetPassword (uid u)) w in
      case setPassword_error (collab srv) pw of
        Some e \<Rightarrow> (Inl e, w1)
      | None \<Rightarrow> (Inr (Some (u\<lparr>hash := hash_password (collab srv) pw\<rparr>)), w1))"

text \<open>
  \<^verbatim>\<open>UserModel.register(a, pw, cb)\<close>: refuses an email that is taken, sets the credential
  and inserts the stamped document; the driver refuses a field name it does not accept
  and the store refuses an id that is taken.
\<close>

definition register :: "server \<Rightarrow> int \<Rightarrow> user \<Rightarrow> string \<Rightarrow> world \<Rightarrow> (string + user) \<times> world" where
  "register srv now a pw w =
     (let w1 = emit (EvRegister a) w in
      case register_error (collab srv) of
        Some e \<Rightarrow> (Inl e, w1)
      | None \<Rightarrow>
          (case find (\<lambda>v. email v = email a) (users w1) of
             Some v \<Rightarrow> (Inl ''UserExistsError'', w1)
           | None \<Rightarrow>
               (case setPassword_error (collab srv) pw of
                  Some e \<Rightarrow> (Inl e, w1)
                | None \<Rightarrow>
                    (let u = stamp now (a\<lparr>hash := hash_password (collab srv) pw\<rparr>) in
                     case save_error (collab srv) of
                       Some e \<Rightarrow> (Inl e, w1)
                     | None \<Rightarrow>
                         (case find (\<lambda>e. refuses_key (collab srv) (fst e)) (acl u) of
                            Some e \<Rightarrow> (Inl ''InvalidKey'', w1)
                          | None \<Rightarrow>
                              (case find (\<lambda>v. uid v = uid a) (users w1) of
                                 Some v \<Rightarrow> (Inl ''duplicate key'', w1)
                               | None \<Rightarrow> (Inr u, w1\<lparr>users := users w1 @ [u]\<rparr>)))))))"

datatype auth_result = AuthError string | AuthUser user | AuthFalse

definition authenticate :: "server \<Rightarrow> user \<Rightarrow> string \<Rightarrow> world \<Rightarrow> auth_result \<times> world" where
  "authenticate srv u pw w =
     (let w1 = emit (EvAuthenticate (uid u)) w in
      case authenticate_error (collab srv) of
        Some e \<Rightarrow> (AuthError e, w1)
      | None \<Rightarrow>
          if hash_password (collab srv) pw = hash u then (AuthUser u, w1)
          else (AuthFalse, w1))"

definition mail_send :: "server \<Rightarrow> mail_message \<Rightarrow> world \<Rightarrow> string option \<times> world" where
  "mail_send srv m w = (send_error (collab srv) m, emit (EvSend m) w)"

definition logout_session :: "world \<Rightarrow> world" where
  "logout_session w = emit EvLogout (w\<lparr>session := None\<rparr>)"

text \<open>
  The access-control plugins. The schema plugs the subject plugin, with the key
  \<^verbatim>\<open>'user:' + this._id\<close>, and then the object plugin. Both define \<^verbatim>\<open>setAccess\<close> and
  \<^verbatim>\<open>getAccess\<close>; the object plugin is plugged last, so a document's methods are its
  \<^verbatim>\<open>setAccess(key, perms)\<close>, which is \<^verbatim>\<open>this._acl[key] = perms\<close>, and its
  \<^verbatim>\<open>getAccess(key)\<close>, which is \<^verbatim>\<open>this._acl[key] || []\<close>.
\<close>

definition access_key :: "user \<Rightarrow> string" where
  "access_key u = ''user:'' @ uid u"

definition setAccess :: "string \<Rightarrow> string list \<Rightarrow> user \<Rightarrow> user" where
  "setAccess k perms a = a\<lparr>acl := (k, perms) # filter (\<lambda>e. fst e \<noteq> k) (acl a)\<rparr>"

definition getAccess :: "user \<Rightarrow> string \<Rightarrow> string list" where
  "getAccess a k = (case map_of (acl a) k of None \<Rightarrow> [] | Some perms \<Rightarrow> perms)"

section \<open>Feature flags\<close>

definition resetPasswordEnabled :: "server \<Rightarrow> bool" where
  "resetPasswordEnabled srv =
     (case mail (settings srv) of
        None \<Rightarrow> False
      | Some m \<Rightarrow>
          (case messages m of
             None \<Rightarrow> False
           | Some ms \<Rightarrow>
               if resetPasswordToken (authentication (settings srv)) = None then False
               else (case passwordResetRequest ms of
                       None \<Rightarrow> False
                     | Some t \<Rightarrow> enabled t)))"

definition confirmEmailEnabled :: "server \<Rightarrow> bool" where
  "confirmEmailEnabled srv =
     (case mail (settings srv) of
        None \<Rightarrow> False
      | Some m \<Rightarrow>
          (case messages m of
             None \<Rightarrow> False
           | Some ms \<Rightarrow>
               if confirmEmailToken (authentication (settings srv)) = None then False
               else (case confirmEmail_message ms of
                       None \<Rightarrow> False
                     | Some t \<Rightarrow> enabled t)))"

section \<open>Login and logout\<close>

text \<open>
  \<^verbatim>\<open>login\<close> runs after the credential check, with the authenticated account as
  \<^verbatim>\<open>request.user\<close>. The grace period is
  \<^verbatim>\<open>confirmEmailToken.timeout ? confirmEmailToken.timeout : 1440\<close> minutes.
\<close>

definition grace_timeout :: "token_settings \<Rightarrow> int" where
  "grace_timeout ts =
     (case timeout ts of None \<Rightarrow> 1440 | Some t \<Rightarrow> if t = 0 then 1440 else t)"

definition login :: "server \<Rightarrow> int \<Rightarrow> user \<Rightarrow> world \<Rightarrow> outcome \<times> world" where
  "login srv now u w =
     (let emailConfirmed =
        (if confirmEmailEnabled srv then
           (case created u of
              None \<Rightarrow> Inr True
            | Some c \<Rightarrow>
                if \<not> isConfirmed u then
                  (case confirmEmailToken (authentication (settings srv)) of
                     None \<Rightarrow> Inl ''TypeError''
                   | Some ts \<Rightarrow>
                       (let timeoutDate = moment_add_minutes c (grace_timeout ts);
                            currentDate = Some now
                        in Inr (date_ge timeoutDate currentDate)))
                else Inr True)
         else Inr True)
      in case emailConfirmed of
           Inl e \<Rightarrow> (Thrown e, w)
         | Inr True \<Rightarrow>
             (let u1 = u\<lparr>lastLogin := Some now\<rparr>;
                  w1 = snd (save srv now u1 w);
                  u2 = readFilter (collab srv) ''owner'' u1
              in (Responded (ServerResult (PUser u2)), w1))
         | Inr False \<Rightarrow>
             (let w1 = logout_session w
              in (Responded (ServerError ''Forbidden'' 403), w1)))"


section \<open>Tokens and notifications\<close>

text \<open>
  The token of \<^verbatim>\<open>sendResetPassword\<close> and \<^verbatim>\<open>sendConfirmEmail\<close> (the two bodies are the
  same up to the token class): \<^verbatim>\<open>{_id: user._id, expiration: expiration}\<close>, serialised,
  encrypted and written in hex. \<open>None\<close>: the cipher throws.
\<close>

definition token_payload :: "runtime \<Rightarrow> string \<Rightarrow> int option \<Rightarrow> json" where
  "token_payload rt i expiration =
     JObj [(''_id'', JStr i), (''expiration'', date_toJSON rt expiration)]"

definition mintToken :: "runtime \<Rightarrow> token_settings \<Rightarrow> int \<Rightarrow> user \<Rightarrow> string option" where
  "mintToken rt ts now u =
     (let expiration = addMinutes rt now (timeout ts)
      in createCipher rt (algorithm ts) (password ts)
           (JSON_stringify rt (token_payload rt (uid u) expiration)))"

text \<open>\<^verbatim>\<open>x || ''\<close> on an optional string.\<close>

definition or_empty :: "string option \<Rightarrow> string" where
  "or_empty x = (case x of None \<Rightarrow> [] | Some s \<Rightarrow> s)"

definition formatAttachment :: "runtime \<Rightarrow> user \<Rightarrow> string \<Rightarrow> attachment \<Rightarrow> attachment" where
  "formatAttachment rt u token a =
     (if alternative a then
        (let d1 = replace rt (data a) ''{firstName}'' (or_empty (firstName u));
             d2 = replace rt d1 ''{lastName}'' (or_empty (lastName u));
             d3 = replace rt d2 ''{token}'' (encodeURIComponent rt token);
             d4 = replace rt d3 ''{token}'' []
         in a\<lparr>data := d4\<rparr>)
      else a)"

definition formatMessage :: "runtime \<Rightarrow> mail_message \<Rightarrow> user \<Rightarrow> string \<Rightarrow> mail_message" where
  "formatMessage rt template u token =
     (let t1 = replace rt (mtext template) ''{firstName}'' (or_empty (firstName u));
          t2 = replace rt t1 ''{lastName}'' (or_empty (lastName u));
          t3 = replace rt t2 ''{token}'' (encodeURIComponent rt token);
          recipient = or_empty (firstName u) @ '' '' @ or_empty (lastName u)
                        @ '' <'' @ email u @ ''>''
      in template\<lparr>mtext := t3, mto := recipient,
                   attachment := map_option (map (formatAttachment rt u token))
                                   (attachment template)\<rparr>)"

text \<open>
  \<^verbatim>\<open>server.settings.mail.messages.m\<close>, read where the enable flag has already found
  \<^verbatim>\<open>mail\<close> and \<^verbatim>\<open>messages\<close>; \<open>None\<close> is a template that is not configured.
\<close>

definition message_template :: "server \<Rightarrow> (messages \<Rightarrow> mail_message option) \<Rightarrow> mail_message option" where
  "message_template srv m =
     (case mail (settings srv) of
        None \<Rightarrow> None
      | Some ml \<Rightarrow> (case messages ml of None \<Rightarrow> None | Some ms \<Rightarrow> m ms))"

text \<open>
  The senders hand their result to a callback: \<open>Inr None\<close> is success, \<open>Inr (Some e)\<close>
  the error \<open>e\<close>, and \<open>Inl\<close> an exception thrown before the callback is reached.
\<close>

definition sendResetPassword :: "server \<Rightarrow> int \<Rightarrow> user \<Rightarrow> world \<Rightarrow> (string + string option) \<times> world" where
  "sendResetPassword srv now u w =
     (if confirmEmailEnabled srv then
        (case resetPasswordToken (authentication (settings srv)) of
           None \<Rightarrow> (Inl ''TypeError'', w)
         | Some ts \<Rightarrow>
             (case mintToken (runtime srv) ts now u of
                None \<Rightarrow> (Inl ''Error'', w)
              | Some token \<Rightarrow>
                  (case message_template srv passwordResetRequest of
                     None \<Rightarrow> (Inl ''SyntaxError'', w)
                   | Some template \<Rightarrow>
                       (let mailMessage = formatMessage (runtime srv) template u token
                        in case mail_send srv mailMessage w of
                             (err, w1) \<Rightarrow> (Inr err, w1)))))
      else (Inr (Some ''Password reset is not enabled.''), w))"

definition sendConfirmEmail :: "server \<Rightarrow> int \<Rightarrow> user \<Rightarrow> world \<Rightarrow> (string + string option) \<times> world" where
  "sendConfirmEmail srv now u w =
     (if confirmEmailEnabled srv then
        (if \<not> isConfirmed u then
           (case confirmEmailToken (authentication (settings srv)) of
              None \<Rightarrow> (Inl ''TypeError'', w)
            | Some ts \<Rightarrow>
                (case mintToken (runtime srv) ts now u of
                   None \<Rightarrow> (Inl ''Error'', w)
                 | Some token \<Rightarrow>
                     (case message_template srv confirmEmail_message of
                        None \<Rightarrow> (Inl ''SyntaxError'', w)
                      | Some template \<Rightarrow>
                          (let mailMessage = formatMessage (runtime srv) template u token
                           in case mail_send srv mailMessage w of
                                (err, w1) \<Rightarrow> (Inr err, w1)))))
         else (Inr (Some ''Email already confirmed.''), w))
      else (Inr (Some ''Email confirmation is not enabled.''), w))"

text \<open>
  The head of \<^verbatim>\<open>resetPassword\<close> and \<^verbatim>\<open>confirmEmail\<close>: decipher the hex string and parse
  the JSON. Neither route catches what these calls throw.
\<close>

definition decodeToken :: "runtime \<Rightarrow> token_settings \<Rightarrow> string \<Rightarrow> string + json" where
  "decodeToken rt ts tok =
     (case createDecipher rt (algorithm ts) (password ts) tok of
        None \<Rightarrow> Inl ''Error''
      | Some s \<Rightarrow>
          (case JSON_parse rt s of
             None \<Rightarrow> Inl ''SyntaxError''
           | Some token \<Rightarrow> Inr token))"

text \<open>\<^verbatim>\<open>new Date() >= new Date(token.expiration)\<close>.\<close>

definition tokenExpired :: "runtime \<Rightarrow> int \<Rightarrow> json \<Rightarrow> string + bool" where
  "tokenExpired rt now token =
     (case getProperty token ''expiration'' of
        Inl e \<Rightarrow> Inl e
      | Inr x \<Rightarrow> Inr (date_ge (Some now) (newDate rt x)))"

section \<open>The account routes\<close>

text \<open>
  \<^verbatim>\<open>create\<close> calls \<^verbatim>\<open>a.setAccess(a, ...)\<close> with the new document itself where the
  method in force takes a key: the document is turned into a string and the grant is
  stored under that string.
\<close>

definition create :: "server \<Rightarrow> int \<Rightarrow> request \<Rightarrow> world \<Rightarrow> outcome \<times> world" where
  "create srv now r w =
     (let a = body_doc (body r);
          a1 = setAccess (document_toString (collab srv) a) [''read'', ''write'', ''delete''] a;
          a2 = setAccess ''role:admin'' [''read'', ''write'', ''delete''] a1
      in case register srv now a2 (body_password (body r)) w of
           (Inl e, w1) \<Rightarrow> (Responded (ServerError e 500), w1)
         | (Inr u, w1) \<Rightarrow>
             (let u1 = readFilter (collab srv) ''owner'' u in
              if confirmEmailEnabled srv then
                (case sendConfirmEmail srv now u1 w1 of
                   (Inl ex, w2) \<Rightarrow> (Thrown ex, w2)
                 | (Inr (Some e), w2) \<Rightarrow> (Responded (ServerError e 500), w2)
                 | (Inr None, w2) \<Rightarrow> (Responded (ServerResult (PUser u1)), w2))
              else (Responded (ServerResult (PUser u1)), w1)))"

text \<open>
  What \<^verbatim>\<open>resetPassword\<close> does once the account lookup has answered.
\<close>

definition resetPassword_found :: "server \<Rightarrow> int \<Rightarrow> request \<Rightarrow> (string + user option) \<times> world \<Rightarrow> outcome \<times> world" where
  "resetPassword_found srv now r found =
     (case found of
        (Inl e, w1) \<Rightarrow> (Responded (ServerError e 500), w1)
      | (Inr None, w1) \<Rightarrow> (Responded (ServerError ''Not Found.'' 404), w1)
      | (Inr (Some u), w1) \<Rightarrow>
          (case setPassword srv u (body_password (body r)) w1 of
             (Inl e, w2) \<Rightarrow> (Responded (ServerError e 500), w2)
           | (Inr None, w2) \<Rightarrow> (Responded (ServerError ''Not Found.'' 404), w2)
           | (Inr (Some u1), w2) \<Rightarrow>
               (case save srv now u1 w2 of
                  (Some e, w3) \<Rightarrow> (Responded (ServerError e 500), w3)
                | (None, w3) \<Rightarrow> (Responded (ServerResult (PBool True)), w3))))"

definition resetPassword :: "server \<Rightarrow> int \<Rightarrow> request \<Rightarrow> world \<Rightarrow> outcome \<times> world" where
  "resetPassword srv now r w =
     (case resetPasswordToken (authentication (settings srv)) of
        None \<Rightarrow> (Thrown ''TypeError'', w)
      | Some ts \<Rightarrow>
          (case decodeToken (runtime srv) ts (body_token (body r)) of
             Inl e \<Rightarrow> (Thrown e, w)
           | Inr token \<Rightarrow>
               (case tokenExpired (runtime srv) now token of
                  Inl e \<Rightarrow> (Thrown e, w)
                | Inr True \<Rightarrow> (Responded (ServerError ''Bad Request'' 400), w)
                | Inr False \<Rightarrow>
                    (case getProperty token ''_id'' of
                       Inl e \<Rightarrow> (Thrown e, w)
                     | Inr i \<Rightarrow> resetPassword_found srv now r (findById srv i w)))))"

definition resetPasswordRequest :: "server \<Rightarrow> int \<Rightarrow> request \<Rightarrow> world \<Rightarrow> outcome \<times> world" where
  "resetPasswordRequest srv now r w =
     (case findOne srv (body_email (body r)) w of
        (Inl e, w1) \<Rightarrow> (Responded (ServerError e 500), w1)
      | (Inr None, w1) \<Rightarrow> (Responded (ServerError ''Not Found'' 404), w1)
      | (Inr (Some u), w1) \<Rightarrow>
          (case sendResetPassword srv now u w1 of
             (Inl ex, w2) \<Rightarrow> (Thrown ex, w2)
           | (Inr (Some e), w2) \<Rightarrow> (Responded (ServerError e 500), w2)
           | (Inr None, w2) \<Rightarrow> (Responded (ServerResult (PBool True)), w2)))"

text \<open>
  What \<^verbatim>\<open>confirmEmail\<close> does once the account lookup has answered.
\<close>

definition confirmEmail_found :: "server \<Rightarrow> int \<Rightarrow> (string + user option) \<times> world \<Rightarrow> outcome \<times> world" where
  "confirmEmail_found srv now found =
     (case found of
        (Inl e, w1) \<Rightarrow> (Responded (ServerError e 500), w1)
      | (Inr None, w1) \<Rightarrow> (Responded (ServerError ''Not Found'' 404), w1)
      | (Inr (Some u), w1) \<Rightarrow>
          (let u1 = u\<lparr>isConfirmed := True\<rparr> in
           case save srv now u1 w1 of
             (Some e, w2) \<Rightarrow> (Responded (ServerError e 500), w2)
           | (None, w2) \<Rightarrow> (Responded (ServerResult (PBool True)), w2)))"

definition confirmEmail :: "server \<Rightarrow> int \<Rightarrow> request \<Rightarrow> world \<Rightarrow> outcome \<times> world" where
  "confirmEmail srv now r w =
     (case confirmEmailToken (authentication (settings srv)) of
        None \<Rightarrow> (Thrown ''TypeError'', w)
      | Some ts \<Rightarrow>
          (case decodeToken (runtime srv) ts (body_token (body r)) of
             Inl e \<Rightarrow> (Thrown e, w)
           | Inr token \<Rightarrow>
               (case tokenExpired (runtime srv) now token of
                  Inl e \<Rightarrow> (Thrown e, w)
                | Inr True \<Rightarrow> (Responded (ServerError ''Bad Request'' 400), w)
                | Inr False \<Rightarrow>
                    (case getProperty token ''_id'' of
                       Inl e \<Rightarrow> (Thrown e, w)
                     | Inr i \<Rightarrow> confirmEmail_found srv now (findById srv i w)))))"





text \<open>
  \<^verbatim>\<open>changePassword\<close> tests the error of \<^verbatim>\<open>authenticate\<close> and then calls
  \<^verbatim>\<open>user.setPassword\<close> on the second argument of the callback without testing it: on
  \<^verbatim>\<open>false\<close> the call throws a TypeError inside the callback.
\<close>

definition changePassword :: "server \<Rightarrow> int \<Rightarrow> request \<Rightarrow> world \<Rightarrow> outcome \<times> world" where
  "changePassword srv now r w =
     (case req_user r of
        None \<Rightarrow> (Thrown ''TypeError'', w)
      | Some ru \<Rightarrow>
          (case authenticate srv ru (oldPassword (body r)) w of
             (AuthError e, w1) \<Rightarrow> (Responded (ServerError e 500), w1)
           | (AuthFalse, w1) \<Rightarrow> (Thrown ''TypeError'', w1)
           | (AuthUser u, w1) \<Rightarrow>
               (case setPassword srv u (newPassword (body r)) w1 of
                  (Inl e, w2) \<Rightarrow> (Responded (ServerError e 500), w2)
                | (Inr None, w2) \<Rightarrow> (Responded (ServerError ''Not Found'' 404), w2)
                | (Inr (Some u1), w2) \<Rightarrow>
                    (case save srv now u1 w2 of
                       (Some e, w3) \<Rightarrow> (Responded (ServerError e 500), w3)
                     | (None, w3) \<Rightarrow> (Responded (ServerResult (PBool True)), w3)))))"

section \<open>Request dispatch\<close>






section \<open>An example deployment\<close>

text \<open>
  A small runtime, store and configuration on which the routes can be evaluated: a cipher
  that prefixes the text with the key (so that a wrong key fails to decipher), the
  serialisation of the token payloads used below, the instants they need, and a local
  time zone without offset. The templates of the example have no placeholder, so
  \<open>replace\<close> has nothing to do.
\<close>

definition demo_toISOString :: "int \<Rightarrow> string" where
  "demo_toISOString t =
     (if t = 60000 then ''1970-01-01T00:01:00.000Z''
      else if t = 3600000 then ''1970-01-01T01:00:00.000Z''
      else if t = 0 then ''1970-01-01T00:00:00.000Z'' else ''other'')"

definition demo_Date_parse :: "string \<Rightarrow> int option" where
  "demo_Date_parse s =
     (if s = ''1970-01-01T00:01:00.000Z'' then Some 60000
      else if s = ''1970-01-01T01:00:00.000Z'' then Some 3600000
      else if s = ''1970-01-01T00:00:00.000Z'' then Some 0 else None)"

definition demo_stringify :: "json \<Rightarrow> string" where
  "demo_stringify j =
     (if j = JObj [(''_id'', JStr ''u1''), (''expiration'', JStr ''1970-01-01T00:01:00.000Z'')]
      then ''{_id:u1,expiration:1970-01-01T00:01:00.000Z}''
      else if j = JObj [(''_id'', JStr ''u1''), (''expiration'', JStr ''1970-01-01T01:00:00.000Z'')]
      then ''{_id:u1,expiration:1970-01-01T01:00:00.000Z}''
      else if j = JObj [(''_id'', JStr ''u1''), (''expiration'', JNull)]
      then ''{_id:u1,expiration:null}''
      else ''null'')"

definition demo_parse :: "string \<Rightarrow> json option" where
  "demo_parse s =
     (if s = ''{_id:u1,expiration:1970-01-01T00:01:00.000Z}''
      then Some (JObj [(''_id'', JStr ''u1''), (''expiration'', JStr ''1970-01-01T00:01:00.000Z'')])
      else if s = ''{_id:u1,expiration:1970-01-01T01:00:00.000Z}''
      then Some (JObj [(''_id'', JStr ''u1''), (''expiration'', JStr ''1970-01-01T01:00:00.000Z'')])
      else if s = ''{_id:u1,expiration:null}''
      then Some (JObj [(''_id'', JStr ''u1''), (''expiration'', JNull)])
      else if s = ''{_id:u1}'' then Some (JObj [(''_id'', JStr ''u1'')])
      else if s = ''null'' then Some JNull
      else None)"

definition demo_runtime :: runtime where
  "demo_runtime =
     \<lparr>createCipher = (\<lambda>alg pw s. if alg = ''aes256'' then Some (pw @ s) else None),
      createDecipher = (\<lambda>alg pw h.
         if alg = ''aes256'' \<and> take (length pw) h = pw then Some (drop (length pw) h)
         else None),
      JSON_stringify = demo_stringify,
      JSON_parse = demo_parse,
      toISOString = demo_toISOString,
      Date_parse = demo_Date_parse,
      ToString = (\<lambda>j. ''[object Object]''),
      LocalTime = (\<lambda>t. t),
      UTC = (\<lambda>t. t),
      encodeURIComponent = (\<lambda>s. s),
      replace = (\<lambda>t p r. t)\<rparr>"

definition demo_cast_id :: "json option \<Rightarrow> string + string" where
  "demo_cast_id i = (case i of Some (JStr s) \<Rightarrow> Inr s | _ \<Rightarrow> Inl ''CastError'')"

definition demo_collab :: collaborators where
  "demo_collab =
     \<lparr>find_error = None,
      cast_id = demo_cast_id,
      save_error = None,
      setPassword_error = (\<lambda>pw. None),
      register_error = None,
      authenticate_error = None,
      hash_password = (\<lambda>pw. ''h:'' @ pw),
      send_error = (\<lambda>m. None),
      readFilter = (\<lambda>profile u. u\<lparr>hash := []\<rparr>),
      document_toString = (\<lambda>u. ''{ email: '' @ email u @ '', _id: '' @ uid u @ '' }''),
      refuses_key = (\<lambda>k. CHR ''.'' \<in> set k \<or> take 1 k = ''$'')\<rparr>"

definition demo_template :: mail_message where
  "demo_template = \<lparr>enabled = True, mtext = ''hello'', mto = [], attachment = None\<rparr>"

definition demo_token :: token_settings where
  "demo_token = \<lparr>timeout = Some 1, algorithm = ''aes256'', password = ''k''\<rparr>"

definition demo_settings :: settings where
  "demo_settings =
     \<lparr>mail = Some \<lparr>messages = Some \<lparr>passwordResetRequest = Some demo_template,
                                      confirmEmail_message = Some demo_template\<rparr>\<rparr>,
      authentication = \<lparr>resetPasswordToken = Some demo_token,
                        confirmEmailToken = Some demo_token\<rparr>\<rparr>"

definition demo_server :: server where
  "demo_server = \<lparr>settings = demo_settings, runtime = demo_runtime, collab = demo_collab\<rparr>"

definition alice :: user where
  "alice =
     \<lparr>uid = ''u1'', email = ''a@b.com'', firstName = Some ''Al'', lastName = None,
      roles = Some [''user''], isConfirmed = False, created = Some 0, modified = Some 0,
      lastLogin = None, hash = ''h:pw'', acl = []\<rparr>"

definition demo_world :: world where
  "demo_world = \<lparr>users = [alice], session = None, trace = []\<rparr>"

definition demo_body :: body where
  "demo_body =
     \<lparr>body_email = ''a@b.com'', body_password = ''pw'', body_token = [], body_role = ''user'',
      oldPassword = ''pw'', newPassword = ''pw2'', body_doc = alice\<rparr>"

definition demo_request :: request where
  "demo_request = \<lparr>body = demo_body, req_user = None\<rparr>"

text \<open>
  The same deployment with the password-reset template configured and enabled and no
  confirm-email template.
\<close>

definition reset_only_server :: server where
  "reset_only_server =
     demo_server\<lparr>settings :=
       \<lparr>mail = Some \<lparr>messages = Some \<lparr>passwordResetRequest = Some demo_template,
                                        confirmEmail_message = None\<rparr>\<rparr>,
        authentication = \<lparr>resetPasswordToken = Some demo_token,
                          confirmEmailToken = Some demo_token\<rparr>\<rparr>\<rparr>"

text \<open>The same deployment with no timeout configured for either token class.\<close>

definition no_ttl_token :: token_settings where
  "no_ttl_token = demo_token\<lparr>timeout := None\<rparr>"

definition no_ttl_server :: server where
  "no_ttl_server =
     demo_server\<lparr>settings :=
       demo_settings\<lparr>authentication :=
         \<lparr>resetPasswordToken = Some no_ttl_token, confirmEmailToken = Some no_ttl_token\<rparr>\<rparr>\<rparr>"

text \<open>
  The same deployment with a timeout of 120 minutes, in a time zone whose clocks are put
  forward by one hour at the instant 60000: before it the local time is the time value,
  from it on it is one hour ahead; a local time in the skipped hour is read with the
  offset before the change.
\<close>

definition dst_runtime :: runtime where
  "dst_runtime =
     demo_runtime\<lparr>LocalTime := (\<lambda>t. if t < 60000 then t else t + 3600000),
                  UTC := (\<lambda>l. if l < 3660000 then l else l - 3600000)\<rparr>"

definition dst_token :: token_settings where
  "dst_token = demo_token\<lparr>timeout := Some 120\<rparr>"

definition dst_server :: server where
  "dst_server =
     demo_server\<lparr>settings :=
       demo_settings\<lparr>authentication :=
         \<lparr>resetPasswordToken = Some dst_token, confirmEmailToken = Some dst_token\<rparr>\<rparr>,
       runtime := dst_runtime\<rparr>"

text \<open>
  The tokens the example cipher mints for \<open>alice\<close> at time 0: with a timeout of one
  minute, with no timeout, and with 120 minutes across the change of offset; a token
  whose payload has no expiration; the payload of the first; and a request that presents
  a token together with a new password.
\<close>

definition demo_token_string :: string where
  "demo_token_string = ''k{_id:u1,expiration:1970-01-01T00:01:00.000Z}''"

definition no_ttl_token_string :: string where
  "no_ttl_token_string = ''k{_id:u1,expiration:null}''"

definition dst_token_string :: string where
  "dst_token_string = ''k{_id:u1,expiration:1970-01-01T01:00:00.000Z}''"

definition bare_token_string :: string where
  "bare_token_string = ''k{_id:u1}''"

definition demo_payload :: json where
  "demo_payload =
     JObj [(''_id'', JStr ''u1''), (''expiration'', JStr ''1970-01-01T00:01:00.000Z'')]"

definition token_request :: "string \<Rightarrow> request" where
  "token_request tok =
     demo_request\<lparr>body := demo_body\<lparr>body_token := tok, body_password := ''new''\<rparr>\<rparr>"

text \<open>
  A second account, not yet in the store, the request that registers it, and the account
  as the store holds it after the registration at time 5.
\<close>

definition carol :: user where
  "carol = alice\<lparr>uid := ''u3'', email := ''carol@localhost'', created := None, modified := None\<rparr>"

definition carol_request :: request where
  "carol_request = demo_request\<lparr>body := demo_body\<lparr>body_doc := carol\<rparr>\<rparr>"

definition carol_stored :: user where
  "carol_stored =
     carol\<lparr>created := Some 5, modified := Some 5, hash := ''h:pw'',
           acl := [(''role:admin'', [''read'', ''write'', ''delete'']),
                   (''{ email: carol@localhost, _id: u3 }'', [''read'', ''write'', ''delete''])]\<rparr>"



section \<open>Predicates on accounts and stores\<close>

text \<open>
  The two grants of a new account: read, write and delete for the account itself, under
  its own key, and for the admin role.
\<close>

definition has_grants :: "user \<Rightarrow> bool" where
  "has_grants a =
     (getAccess a (access_key a) = [''read'', ''write'', ''delete''] \<and>
      getAccess a ''role:admin'' = [''read'', ''write'', ''delete''])"



section \<open>Properties of the routes\<close>

lemmas demo_defs = demo_server_def demo_settings_def demo_token_def demo_template_def
  demo_collab_def demo_runtime_def demo_world_def demo_request_def demo_body_def alice_def
  demo_cast_id_def demo_parse_def demo_stringify_def demo_Date_parse_def demo_toISOString_def

subsection \<open>Login\<close>




text \<open>
  C10. The grace period is looked at only when the account carries \<^verbatim>\<open>_created\<close>. An
  account without it, confirmed or not, is logged in whatever the configuration and the
  clock: \<^verbatim>\<open>_lastLogin\<close> is stamped, the account is saved and the owner-filtered account
  is the result.
\<close>

theorem login_without_created:
  "created u = None \<Longrightarrow>
   login srv now u w =
     (Responded (ServerResult (PUser (readFilter (collab srv) ''owner'' (u\<lparr>lastLogin := Some now\<rparr>)))),
      snd (save srv now (u\<lparr>lastLogin := Some now\<rparr>) w))"
  by (simp add: login_def Let_def)

theorem login_without_created_witness:
  "created (alice\<lparr>created := None\<rparr>) = None \<and>
   \<not> isConfirmed (alice\<lparr>created := None\<rparr>) \<and>
   confirmEmailEnabled demo_server \<and>
   login demo_server 1000000000000 (alice\<lparr>created := None\<rparr>)
       (demo_world\<lparr>users := [alice\<lparr>created := None\<rparr>]\<rparr>) =
     (Responded (ServerResult (PUser (alice\<lparr>created := None, lastLogin := Some 1000000000000, hash := []\<rparr>))),
      demo_world\<lparr>users := [alice\<lparr>created := Some 1000000000000, modified := Some 1000000000000,
                                  lastLogin := Some 1000000000000\<rparr>],
                 trace := [EvSave (alice\<lparr>created := None, lastLogin := Some 1000000000000\<rparr>)]\<rparr>)"
  using login_without_created [of "alice\<lparr>created := None\<rparr>" demo_server 1000000000000
      "demo_world\<lparr>users := [alice\<lparr>created := None\<rparr>]\<rparr>"]
  by (simp add: demo_defs confirmEmailEnabled_def save_def stamp_def emit_def Let_def)

subsection \<open>Password reset requests\<close>

text \<open>
  C4. \<^verbatim>\<open>sendResetPassword\<close> asks \<^verbatim>\<open>confirmEmailEnabled\<close>, not
  \<^verbatim>\<open>resetPasswordEnabled\<close>. With the password-reset template configured and enabled, the
  reset token configured and no confirm-email template, a reset request for an existing
  account mints no token and sends nothing: the answer is the error
  \<^verbatim>\<open>Password reset is not enabled.\<close> with status 500.
\<close>

theorem reset_request_gated_by_confirm_email:
  "resetPasswordEnabled reset_only_server \<and>
   find (\<lambda>u. email u = body_email (body demo_request)) (users demo_world) = Some alice \<and>
   resetPasswordRequest reset_only_server 0 demo_request demo_world =
     (Responded (ServerError ''Password reset is not enabled.'' 500),
      demo_world\<lparr>trace := [EvFindOne ''a@b.com'']\<rparr>)"
  by (simp add: reset_only_server_def demo_defs resetPasswordEnabled_def confirmEmailEnabled_def
      resetPasswordRequest_def sendResetPassword_def findOne_def emit_def Let_def)

subsection \<open>Password change\<close>

text \<open>
  C6. With an old password that does not match, the credential plugin calls back with no
  error and \<^verbatim>\<open>false\<close> for the user. \<^verbatim>\<open>changePassword\<close> then calls
  \<^verbatim>\<open>user.setPassword\<close> on \<^verbatim>\<open>false\<close>: a TypeError escapes, no 500 is answered. The
  stored accounts are untouched and neither \<^verbatim>\<open>setPassword\<close> nor \<^verbatim>\<open>save\<close> is called.
\<close>

theorem change_password_wrong_old_password:
  "hash_password (collab demo_server) ''wrong'' \<noteq> hash alice \<and>
   changePassword demo_server 0
       (demo_request\<lparr>body := demo_body\<lparr>oldPassword := ''wrong''\<rparr>, req_user := Some alice\<rparr>)
       demo_world =
     (Thrown ''TypeError'', demo_world\<lparr>trace := [EvAuthenticate ''u1'']\<rparr>)"
  by (simp add: demo_defs changePassword_def authenticate_def emit_def Let_def)

subsection \<open>Tokens\<close>

lemma findById_trace: "trace (snd (findById srv i w)) = trace w @ [EvFindById i]"
  by (simp add: findById_def emit_def Let_def split: option.splits sum.splits)


lemma date_ge_iff: "date_ge (Some now) d = (\<exists>e. d = Some e \<and> e \<le> now)"
  by (cases d) simp_all

lemma getProperty_null: "(\<exists>ex. getProperty token p = Inl ex) = (token = JNull)"
  by (cases token) simp_all

lemma confirmEmailEnabled_template:
  "confirmEmailEnabled srv \<Longrightarrow> \<exists>t. message_template srv confirmEmail_message = Some t"
  by (auto simp add: confirmEmailEnabled_def message_template_def split: option.splits if_splits)

lemma sendConfirmEmail_sends:
  assumes "confirmEmailEnabled srv"
    and "confirmEmailToken (authentication (settings srv)) = Some ts"
    and "\<not> isConfirmed u"
    and "mintToken (runtime srv) ts now u = Some tok"
  shows "\<exists>template. message_template srv confirmEmail_message = Some template \<and>
           sendConfirmEmail srv now u w =
             (Inr (send_error (collab srv) (formatMessage (runtime srv) template u tok)),
              emit (EvSend (formatMessage (runtime srv) template u tok)) w)"
proof -
  from confirmEmailEnabled_template [OF assms(1)]
  obtain t where t: "message_template srv confirmEmail_message = Some t" by blast
  have "sendConfirmEmail srv now u w =
             (Inr (send_error (collab srv) (formatMessage (runtime srv) t u tok)),
              emit (EvSend (formatMessage (runtime srv) t u tok)) w)"
    using assms t by (simp add: sendConfirmEmail_def mail_send_def Let_def)
  with t show ?thesis by blast
qed

lemma sendResetPassword_sends:
  assumes "confirmEmailEnabled srv"
    and "resetPasswordToken (authentication (settings srv)) = Some ts"
    and "message_template srv passwordResetRequest = Some template"
    and "mintToken (runtime srv) ts now u = Some tok"
  shows "sendResetPassword srv now u w =
           (Inr (send_error (collab srv) (formatMessage (runtime srv) template u tok)),
            emit (EvSend (formatMessage (runtime srv) template u tok)) w)"
  using assms by (simp add: sendResetPassword_def mail_send_def Let_def)

lemma demo_tokens:
  "resetPasswordToken (authentication (settings demo_server)) = Some demo_token"
  "confirmEmailToken (authentication (settings demo_server)) = Some demo_token"
  by (simp_all add: demo_server_def demo_settings_def)

lemma no_ttl_tokens:
  "resetPasswordToken (authentication (settings no_ttl_server)) = Some no_ttl_token"
  "confirmEmailToken (authentication (settings no_ttl_server)) = Some no_ttl_token"
  by (simp_all add: no_ttl_server_def)

lemma demo_enabled:
  "confirmEmailEnabled demo_server"
  "message_template demo_server confirmEmail_message = Some demo_template"
  "message_template demo_server passwordResetRequest = Some demo_template"
  by (simp_all add: confirmEmailEnabled_def message_template_def demo_server_def demo_settings_def
      demo_template_def)

lemma no_ttl_enabled:
  "confirmEmailEnabled no_ttl_server"
  "message_template no_ttl_server confirmEmail_message = Some demo_template"
  "message_template no_ttl_server passwordResetRequest = Some demo_template"
  by (simp_all add: confirmEmailEnabled_def message_template_def no_ttl_server_def demo_server_def
      demo_settings_def demo_template_def)

lemma demo_cipher_inverse:
  "\<forall>s h. createCipher (runtime demo_server) (algorithm demo_token) (password demo_token) s = Some h \<longrightarrow>
         createDecipher (runtime demo_server) (algorithm demo_token) (password demo_token) h = Some s"
  by (auto simp add: demo_defs)

lemma no_ttl_cipher_inverse:
  "\<forall>s h. createCipher (runtime no_ttl_server) (algorithm no_ttl_token) (password no_ttl_token) s = Some h \<longrightarrow>
         createDecipher (runtime no_ttl_server) (algorithm no_ttl_token) (password no_ttl_token) h = Some s"
  by (auto simp add: no_ttl_server_def no_ttl_token_def demo_defs)

lemma demo_mint: "mintToken (runtime demo_server) demo_token 0 alice = Some demo_token_string"
  by (simp add: mintToken_def demo_token_string_def token_payload_def TimeClip_def demo_defs)

lemma no_ttl_mint: "mintToken (runtime no_ttl_server) no_ttl_token 0 alice = Some no_ttl_token_string"
  by (simp add: mintToken_def no_ttl_server_def no_ttl_token_def no_ttl_token_string_def
      token_payload_def demo_defs)

lemma dst_mint: "mintToken (runtime dst_server) dst_token 0 alice = Some dst_token_string"
  by (simp add: mintToken_def dst_server_def dst_runtime_def dst_token_def dst_token_string_def
      token_payload_def TimeClip_def demo_defs)

lemma demo_decode:
  "decodeToken (runtime demo_server) demo_token (body_token (body (token_request demo_token_string)))
     = Inr demo_payload"
  by (simp add: decodeToken_def token_request_def demo_token_string_def demo_payload_def demo_defs)

lemma bare_decode:
  "decodeToken (runtime demo_server) demo_token (body_token (body (token_request bare_token_string)))
     = Inr (JObj [(''_id'', JStr ''u1'')])"
  by (simp add: decodeToken_def token_request_def bare_token_string_def demo_defs)

lemma null_decode:
  "decodeToken (runtime demo_server) demo_token (body_token (body (token_request ''knull'')))
     = Inr JNull"
  by (simp add: decodeToken_def token_request_def demo_defs)

lemma demo_reset_found:
  "resetPassword_found demo_server now (token_request tok)
       (findById demo_server (Some (JStr ''u1'')) demo_world) =
     (Responded (ServerResult (PBool True)),
      demo_world\<lparr>users := [alice\<lparr>hash := ''h:new'', modified := Some now\<rparr>],
                 trace := [EvFindById (Some (JStr ''u1'')), EvSetPassword ''u1'',
                           EvSave (alice\<lparr>hash := ''h:new''\<rparr>)]\<rparr>)"
  by (simp add: resetPassword_found_def findById_def setPassword_def save_def stamp_def emit_def
      Let_def token_request_def demo_defs)

lemma demo_confirm_found:
  "confirmEmail_found demo_server now (findById demo_server (Some (JStr ''u1'')) demo_world) =
     (Responded (ServerResult (PBool True)),
      demo_world\<lparr>users := [alice\<lparr>isConfirmed := True, modified := Some now\<rparr>],
                 trace := [EvFindById (Some (JStr ''u1'')),
                           EvSave (alice\<lparr>isConfirmed := True\<rparr>)]\<rparr>)"
  by (simp add: confirmEmail_found_def findById_def save_def stamp_def emit_def Let_def demo_defs)

text \<open>
  C1, as the code has it. The expiration of a token is computed on the local time,
  \<^verbatim>\<open>setMinutes(getMinutes() + timeout)\<close>: it is \<open>now + m\<close> minutes when the offset of
  the local zone is the same at both ends, and differs from it by the change of offset
  otherwise. A token minted for account \<open>u\<close> at \<open>now\<close> with a timeout of \<open>m\<close> minutes and
  expiration \<open>e\<close> is the token that \<^verbatim>\<open>sendConfirmEmail\<close> and \<^verbatim>\<open>sendResetPassword\<close> put in
  the notification they send. Presented at \<open>now'\<close> before \<open>e\<close> to a route configured with
  the same algorithm and key, it decodes to the payload that was minted, whose \<^verbatim>\<open>_id\<close>
  is the id of \<open>u\<close>, and \<^verbatim>\<open>resetPassword\<close> and \<^verbatim>\<open>confirmEmail\<close> go on with the lookup
  of exactly that id. The runtime is asked to decipher what it enciphered under that
  algorithm and key, to parse the payload it serialised, and to read back the ISO string
  of the expiration.
\<close>

theorem token_round_trip:
  assumes ttl: "timeout ts = Some m"
    and exp: "addMinutes (runtime srv) now (Some m) = Some e"
    and mint: "mintToken (runtime srv) ts now u = Some tok"
    and inv: "\<forall>s h. createCipher (runtime srv) (algorithm ts) (password ts) s = Some h \<longrightarrow>
                   createDecipher (runtime srv) (algorithm ts) (password ts) h = Some s"
    and json: "JSON_parse (runtime srv)
                 (JSON_stringify (runtime srv) (token_payload (runtime srv) (uid u) (Some e)))
               = Some (token_payload (runtime srv) (uid u) (Some e))"
    and date: "Date_parse (runtime srv) (toISOString (runtime srv) e) = Some e"
    and req: "body_token (body r) = tok"
    and early: "now' < e"
  shows "(UTC (runtime srv) (LocalTime (runtime srv) now + m * 60000) = now + m * 60000 \<longrightarrow>
            e = now + m * 60000)
       \<and> (confirmEmailEnabled srv \<and> confirmEmailToken (authentication (settings srv)) = Some ts \<and>
          \<not> isConfirmed u \<longrightarrow>
            (\<exists>template. message_template srv confirmEmail_message = Some template \<and>
               sendConfirmEmail srv now u w =
                 (Inr (send_error (collab srv) (formatMessage (runtime srv) template u tok)),
                  emit (EvSend (formatMessage (runtime srv) template u tok)) w)))
       \<and> (confirmEmailEnabled srv \<and> resetPasswordToken (authentication (settings srv)) = Some ts \<and>
          message_template srv passwordResetRequest = Some template' \<longrightarrow>
            sendResetPassword srv now u w =
              (Inr (send_error (collab srv) (formatMessage (runtime srv) template' u tok)),
               emit (EvSend (formatMessage (runtime srv) template' u tok)) w))
       \<and> decodeToken (runtime srv) ts tok = Inr (token_payload (runtime srv) (uid u) (Some e))
       \<and> getProperty (token_payload (runtime srv) (uid u) (Some e)) ''_id'' = Inr (Some (JStr (uid u)))
       \<and> (resetPasswordToken (authentication (settings srv)) = Some ts \<longrightarrow>
            resetPassword srv now' r w' =
              resetPassword_found srv now' r (findById srv (Some (JStr (uid u))) w'))
       \<and> (confirmEmailToken (authentication (settings srv)) = Some ts \<longrightarrow>
            confirmEmail srv now' r w' =
              confirmEmail_found srv now' (findById srv (Some (JStr (uid u))) w'))
       \<and> trace (snd (findById srv (Some (JStr (uid u))) w')) = trace w' @ [EvFindById (Some (JStr (uid u)))]"
proof -
  let ?P = "token_payload (runtime srv) (uid u) (Some e)"
  have zone: "UTC (runtime srv) (LocalTime (runtime srv) now + m * 60000) = now + m * 60000 \<longrightarrow>
            e = now + m * 60000"
    using exp by (auto simp add: TimeClip_def split: if_splits)
  have sc: "confirmEmailEnabled srv \<and> confirmEmailToken (authentication (settings srv)) = Some ts \<and>
          \<not> isConfirmed u \<longrightarrow>
            (\<exists>template. message_template srv confirmEmail_message = Some template \<and>
               sendConfirmEmail srv now u w =
                 (Inr (send_error (collab srv) (formatMessage (runtime srv) template u tok)),
                  emit (EvSend (formatMessage (runtime srv) template u tok)) w))"
    using sendConfirmEmail_sends [where w = w, OF _ _ _ mint] by blast
  have sr: "confirmEmailEnabled srv \<and> resetPasswordToken (authentication (settings srv)) = Some ts \<and>
          message_template srv passwordResetRequest = Some template' \<longrightarrow>
            sendResetPassword srv now u w =
              (Inr (send_error (collab srv) (formatMessage (runtime srv) template' u tok)),
               emit (EvSend (formatMessage (runtime srv) template' u tok)) w)"
    using sendResetPassword_sends [where w = w, OF _ _ _ mint] by blast
  from mint ttl exp
  have "createCipher (runtime srv) (algorithm ts) (password ts) (JSON_stringify (runtime srv) ?P) = Some tok"
    by (simp add: mintToken_def)
  with inv
  have dec: "createDecipher (runtime srv) (algorithm ts) (password ts) tok = Some (JSON_stringify (runtime srv) ?P)"
    by blast
  have d: "decodeToken (runtime srv) ts tok = Inr ?P"
    using dec json by (simp add: decodeToken_def)
  have i: "getProperty ?P ''_id'' = Inr (Some (JStr (uid u)))"
    by (simp add: token_payload_def)
  have x: "tokenExpired (runtime srv) now' ?P = Inr False"
    using date early by (simp add: tokenExpired_def token_payload_def)
  have v: "(resetPasswordToken (authentication (settings srv)) = Some ts \<longrightarrow>
            resetPassword srv now' r w' =
              resetPassword_found srv now' r (findById srv (Some (JStr (uid u))) w'))
       \<and> (confirmEmailToken (authentication (settings srv)) = Some ts \<longrightarrow>
            confirmEmail srv now' r w' =
              confirmEmail_found srv now' (findById srv (Some (JStr (uid u))) w'))"
    using d i x req by (simp add: resetPassword_def confirmEmail_def)
  from zone sc sr d i v show ?thesis by (simp add: findById_trace)
qed

theorem token_round_trip_witness:
  "timeout demo_token = Some 1 \<and>
   addMinutes (runtime demo_server) 0 (Some 1) = Some 60000 \<and>
   mintToken (runtime demo_server) demo_token 0 alice = Some demo_token_string \<and>
   (59999::int) < 60000 \<and>
   sendConfirmEmail demo_server 0 alice demo_world =
     (Inr None,
      demo_world\<lparr>trace := [EvSend (formatMessage (runtime demo_server) demo_template alice
                                     demo_token_string)]\<rparr>) \<and>
   sendResetPassword demo_server 0 alice demo_world =
     (Inr None,
      demo_world\<lparr>trace := [EvSend (formatMessage (runtime demo_server) demo_template alice
                                     demo_token_string)]\<rparr>) \<and>
   resetPassword demo_server 59999 (token_request demo_token_string) demo_world =
     (Responded (ServerResult (PBool True)),
      demo_world\<lparr>users := [alice\<lparr>hash := ''h:new'', modified := Some 59999\<rparr>],
                 trace := [EvFindById (Some (JStr ''u1'')), EvSetPassword ''u1'',
                           EvSave (alice\<lparr>hash := ''h:new''\<rparr>)]\<rparr>) \<and>
   confirmEmail demo_server 59999 (token_request demo_token_string) demo_world =
     (Responded (ServerResult (PBool True)),
      demo_world\<lparr>users := [alice\<lparr>isConfirmed := True, modified := Some 59999\<rparr>],
                 trace := [EvFindById (Some (JStr ''u1'')),
                           EvSave (alice\<lparr>isConfirmed := True\<rparr>)]\<rparr>)"
proof -
  have h1: "timeout demo_token = Some 1" by (simp add: demo_token_def)
  have h2: "addMinutes (runtime demo_server) 0 (Some 1) = Some 60000"
    by (simp add: TimeClip_def demo_server_def demo_runtime_def)
  have h4: "JSON_parse (runtime demo_server)
              (JSON_stringify (runtime demo_server)
                 (token_payload (runtime demo_server) (uid alice) (Some 60000)))
            = Some (token_payload (runtime demo_server) (uid alice) (Some 60000))"
    by (simp add: token_payload_def demo_defs)
  have h5: "Date_parse (runtime demo_server) (toISOString (runtime demo_server) 60000) = Some 60000"
    by (simp add: demo_defs)
  have h6: "body_token (body (token_request demo_token_string)) = demo_token_string"
    by (simp add: token_request_def demo_request_def demo_body_def)
  have h7: "(59999::int) < 60000" by simp
  have u: "uid alice = ''u1''" "\<not> isConfirmed alice" by (simp_all add: alice_def)
  have se: "send_error (collab demo_server) m = None" for m
    by (simp add: demo_server_def demo_collab_def)
  have em: "emit ev demo_world = demo_world\<lparr>trace := [ev]\<rparr>" for ev
    by (simp add: emit_def demo_world_def)
  note rt = token_round_trip [OF h1 h2 demo_mint demo_cipher_inverse h4 h5 h6 h7,
      of demo_world demo_template demo_world]
  from rt demo_tokens demo_enabled u
  have sc: "sendConfirmEmail demo_server 0 alice demo_world =
     (Inr None,
      demo_world\<lparr>trace := [EvSend (formatMessage (runtime demo_server) demo_template alice
                                     demo_token_string)]\<rparr>)"
    and sr: "sendResetPassword demo_server 0 alice demo_world =
     (Inr None,
      demo_world\<lparr>trace := [EvSend (formatMessage (runtime demo_server) demo_template alice
                                     demo_token_string)]\<rparr>)"
    by (simp_all add: se em)
  from rt demo_tokens
  have "resetPassword demo_server 59999 (token_request demo_token_string) demo_world =
          resetPassword_found demo_server 59999 (token_request demo_token_string)
            (findById demo_server (Some (JStr ''u1'')) demo_world)"
    and "confirmEmail demo_server 59999 (token_request demo_token_string) demo_world =
          confirmEmail_found demo_server 59999 (findById demo_server (Some (JStr ''u1'')) demo_world)"
    by (simp_all add: u)
  then show ?thesis using h1 h2 demo_mint h7 sc sr
    by (simp add: demo_reset_found demo_confirm_found)
qed

text \<open>
  C1 as stated asks for the round trip at every time before the timeout has elapsed. In
  a zone whose clocks are put forward by one hour one minute after the minting, a token
  minted at time 0 with a timeout of 120 minutes expires 60 minutes after the minting:
  presented at that time, 60 minutes before the timeout has elapsed, it is refused with
  400 Bad Request by both routes and no account is looked up.
\<close>

theorem token_before_ttl_counterexample:
  "timeout dst_token = Some 120 \<and>
   resetPasswordToken (authentication (settings dst_server)) = Some dst_token \<and>
   confirmEmailToken (authentication (settings dst_server)) = Some dst_token \<and>
   mintToken (runtime dst_server) dst_token 0 alice = Some dst_token_string \<and>
   (3600000::int) < 0 + 120 * 60000 \<and>
   resetPassword dst_server 3600000 (token_request dst_token_string) demo_world =
     (Responded (ServerError ''Bad Request'' 400), demo_world) \<and>
   confirmEmail dst_server 3600000 (token_request dst_token_string) demo_world =
     (Responded (ServerError ''Bad Request'' 400), demo_world)"
  by (simp add: dst_mint)
     (simp add: resetPassword_def confirmEmail_def decodeToken_def tokenExpired_def
      token_request_def dst_server_def dst_runtime_def dst_token_def dst_token_string_def demo_defs)

text \<open>
  C2, as the code has it. Neither \<^verbatim>\<open>resetPassword\<close> nor \<^verbatim>\<open>confirmEmail\<close> catches what the
  decipher or \<^verbatim>\<open>JSON.parse\<close> throws. For a token string that fails to decipher or to
  parse, the exception leaves the route: no account is looked up or changed, no
  collaborator is called, and the route itself sends no response.
\<close>

theorem malformed_token_throws:
  assumes "decodeToken (runtime srv) ts (body_token (body r)) = Inl e"
  shows "(resetPasswordToken (authentication (settings srv)) = Some ts \<longrightarrow>
            resetPassword srv now r w = (Thrown e, w))
       \<and> (confirmEmailToken (authentication (settings srv)) = Some ts \<longrightarrow>
            confirmEmail srv now r w = (Thrown e, w))"
  using assms by (simp add: resetPassword_def confirmEmail_def)

theorem malformed_token_throws_witness:
  "decodeToken (runtime demo_server) demo_token (body_token (body (token_request ''zz''))) = Inl ''Error'' \<and>
   resetPasswordToken (authentication (settings demo_server)) = Some demo_token \<and>
   confirmEmailToken (authentication (settings demo_server)) = Some demo_token \<and>
   resetPassword demo_server 0 (token_request ''zz'') demo_world = (Thrown ''Error'', demo_world) \<and>
   confirmEmail demo_server 0 (token_request ''zz'') demo_world = (Thrown ''Error'', demo_world)"
proof -
  have d: "decodeToken (runtime demo_server) demo_token (body_token (body (token_request ''zz'')))
           = Inl ''Error''"
    by (simp add: decodeToken_def token_request_def demo_defs)
  from malformed_token_throws [OF d, of 0 demo_world] d demo_tokens show ?thesis by simp
qed

text \<open>
  C2 as stated asks for a 400 response. The string \<^verbatim>\<open>zz\<close> does not decipher under the
  configured key; neither route answers 400.
\<close>

theorem malformed_token_counterexample:
  "createDecipher (runtime demo_server) (algorithm demo_token) (password demo_token) ''zz'' = None \<and>
   resetPassword demo_server 0 (token_request ''zz'') demo_world
     \<noteq> (Responded (ServerError ''Bad Request'' 400), demo_world) \<and>
   confirmEmail demo_server 0 (token_request ''zz'') demo_world
     \<noteq> (Responded (ServerError ''Bad Request'' 400), demo_world)"
  by (simp add: resetPassword_def confirmEmail_def decodeToken_def token_request_def demo_defs)

text \<open>
  C5, as the code has it. Both routes test \<^verbatim>\<open>new Date() >= new Date(token.expiration)\<close>.
  For a decoded token other than \<^verbatim>\<open>null\<close>, the answer is 400 Bad Request, with the
  world left as it was, exactly when the expiration reads as a date \<open>e\<close> with \<open>e \<le> now\<close>.
  In every other case, a date after \<open>now\<close> or an expiration that is absent or does not
  read as a date, the route goes on with the lookup of the token's \<^verbatim>\<open>_id\<close>. On a
  decoded \<^verbatim>\<open>null\<close> the property access throws a TypeError before any lookup.
\<close>

theorem token_expiry_check:
  assumes "decodeToken (runtime srv) ts (body_token (body r)) = Inr token"
  shows "(resetPasswordToken (authentication (settings srv)) = Some ts \<longrightarrow>
            (token = JNull \<longrightarrow> resetPassword srv now r w = (Thrown ''TypeError'', w)) \<and>
            (\<forall>x. getProperty token ''expiration'' = Inr x \<longrightarrow>
               (if \<exists>e. newDate (runtime srv) x = Some e \<and> e \<le> now
                then resetPassword srv now r w = (Responded (ServerError ''Bad Request'' 400), w)
                else \<exists>i. getProperty token ''_id'' = Inr i \<and>
                       resetPassword srv now r w = resetPassword_found srv now r (findById srv i w))))
       \<and> (confirmEmailToken (authentication (settings srv)) = Some ts \<longrightarrow>
            (token = JNull \<longrightarrow> confirmEmail srv now r w = (Thrown ''TypeError'', w)) \<and>
            (\<forall>x. getProperty token ''expiration'' = Inr x \<longrightarrow>
               (if \<exists>e. newDate (runtime srv) x = Some e \<and> e \<le> now
                then confirmEmail srv now r w = (Responded (ServerError ''Bad Request'' 400), w)
                else \<exists>i. getProperty token ''_id'' = Inr i \<and>
                       confirmEmail srv now r w = confirmEmail_found srv now (findById srv i w))))"
proof (cases "token = JNull")
  case True
  then show ?thesis using assms
    by (simp add: resetPassword_def confirmEmail_def tokenExpired_def)
next
  case False
  then obtain i where i: "getProperty token ''_id'' = Inr i"
    by (cases token) auto
  show ?thesis using assms False i
    by (auto simp add: resetPassword_def confirmEmail_def tokenExpired_def date_ge_iff
        bool.case_eq_if)
qed

theorem token_expiry_check_witness:
  "decodeToken (runtime demo_server) demo_token (body_token (body (token_request demo_token_string)))
     = Inr demo_payload \<and>
   getProperty demo_payload ''expiration'' = Inr (Some (JStr ''1970-01-01T00:01:00.000Z'')) \<and>
   newDate (runtime demo_server) (Some (JStr ''1970-01-01T00:01:00.000Z'')) = Some 60000 \<and>
   resetPassword demo_server 60000 (token_request demo_token_string) demo_world =
     (Responded (ServerError ''Bad Request'' 400), demo_world) \<and>
   confirmEmail demo_server 60000 (token_request demo_token_string) demo_world =
     (Responded (ServerError ''Bad Request'' 400), demo_world) \<and>
   confirmEmail demo_server 59999 (token_request demo_token_string) demo_world =
     (Responded (ServerResult (PBool True)),
      demo_world\<lparr>users := [alice\<lparr>isConfirmed := True, modified := Some 59999\<rparr>],
                 trace := [EvFindById (Some (JStr ''u1'')),
                           EvSave (alice\<lparr>isConfirmed := True\<rparr>)]\<rparr>) \<and>
   decodeToken (runtime demo_server) demo_token (body_token (body (token_request bare_token_string)))
     = Inr (JObj [(''_id'', JStr ''u1'')]) \<and>
   getProperty (JObj [(''_id'', JStr ''u1'')]) ''expiration'' = Inr None \<and>
   confirmEmail demo_server 70000 (token_request bare_token_string) demo_world =
     (Responded (ServerResult (PBool True)),
      demo_world\<lparr>users := [alice\<lparr>isConfirmed := True, modified := Some 70000\<rparr>],
                 trace := [EvFindById (Some (JStr ''u1'')),
                           EvSave (alice\<lparr>isConfirmed := True\<rparr>)]\<rparr>) \<and>
   decodeToken (runtime demo_server) demo_token (body_token (body (token_request ''knull'')))
     = Inr JNull \<and>
   resetPassword demo_server 0 (token_request ''knull'') demo_world = (Thrown ''TypeError'', demo_world)"
proof -
  have x: "getProperty demo_payload ''expiration'' = Inr (Some (JStr ''1970-01-01T00:01:00.000Z''))"
    and i: "getProperty demo_payload ''_id'' = Inr (Some (JStr ''u1''))"
    by (simp_all add: demo_payload_def)
  have e: "newDate (runtime demo_server) (Some (JStr ''1970-01-01T00:01:00.000Z'')) = Some 60000"
    by (simp add: demo_defs)
  have bx: "getProperty (JObj [(''_id'', JStr ''u1'')]) ''expiration'' = Inr None"
    and bi: "getProperty (JObj [(''_id'', JStr ''u1'')]) ''_id'' = Inr (Some (JStr ''u1''))"
    by simp_all
  note late = token_expiry_check [OF demo_decode, of 60000 demo_world]
  note early = token_expiry_check [OF demo_decode, of 59999 demo_world]
  note bare = token_expiry_check [OF bare_decode, of 70000 demo_world]
  note null = token_expiry_check [OF null_decode, of 0 demo_world]
  from late demo_tokens x e
  have l: "resetPassword demo_server 60000 (token_request demo_token_string) demo_world =
             (Responded (ServerError ''Bad Request'' 400), demo_world)"
    "confirmEmail demo_server 60000 (token_request demo_token_string) demo_world =
             (Responded (ServerError ''Bad Request'' 400), demo_world)"
    by simp_all
  from early demo_tokens x e i
  have y: "confirmEmail demo_server 59999 (token_request demo_token_string) demo_world =
          confirmEmail_found demo_server 59999 (findById demo_server (Some (JStr ''u1'')) demo_world)"
    by simp
  from bare demo_tokens bx bi
  have b: "confirmEmail demo_server 70000 (token_request bare_token_string) demo_world =
          confirmEmail_found demo_server 70000 (findById demo_server (Some (JStr ''u1'')) demo_world)"
    by simp
  from null demo_tokens
  have n: "resetPassword demo_server 0 (token_request ''knull'') demo_world = (Thrown ''TypeError'', demo_world)"
    by simp
  show ?thesis using demo_decode bare_decode null_decode x e bx l y b n
    by (simp add: demo_confirm_found)
qed

text \<open>
  C5 as stated asks that every decoded token be refused unless its expiration is strictly
  in the future. The token \<^verbatim>\<open>{_id: u1}\<close> decodes and has no expiration at all, so none in
  the future; long after any timeout \<^verbatim>\<open>resetPassword\<close> does not answer 400 but looks the
  account up and sets the new password.
\<close>

theorem token_without_expiration_counterexample:
  "decodeToken (runtime demo_server) demo_token (body_token (body (token_request bare_token_string)))
     = Inr (JObj [(''_id'', JStr ''u1'')]) \<and>
   getProperty (JObj [(''_id'', JStr ''u1'')]) ''expiration'' = Inr None \<and>
   newDate (runtime demo_server) None = None \<and>
   resetPassword demo_server 1000000000000 (token_request bare_token_string) demo_world =
     (Responded (ServerResult (PBool True)),
      demo_world\<lparr>users := [alice\<lparr>hash := ''h:new'', modified := Some 1000000000000\<rparr>],
                 trace := [EvFindById (Some (JStr ''u1'')), EvSetPassword ''u1'',
                           EvSave (alice\<lparr>hash := ''h:new''\<rparr>)]\<rparr>)"
  by (simp add: bare_decode)
     (simp add: resetPassword_def resetPassword_found_def decodeToken_def tokenExpired_def
      findById_def setPassword_def save_def stamp_def emit_def Let_def
      token_request_def bare_token_string_def demo_defs)

text \<open>
  C7, as the code has it. A missing timeout is not reported at minting: the expiration
  is an invalid date, which is serialised as \<^verbatim>\<open>null\<close>, the token is minted whenever
  the cipher accepts the algorithm and key, and the sender whose gate is open sends the
  notification with that token (\<^verbatim>\<open>sendConfirmEmail\<close> for an unconfirmed account when
  confirm-email is enabled, \<^verbatim>\<open>sendResetPassword\<close> when confirm-email is enabled and the
  reset template is configured). At verification \<^verbatim>\<open>new Date(null)\<close> is the epoch, so
  from the epoch on such a token is refused with 400 Bad Request by both routes and the
  world is left as it was. No default timeout is put in its place.
\<close>

theorem missing_ttl_token_rejected:
  assumes ttl: "timeout ts = None"
    and cipher: "createCipher (runtime srv) (algorithm ts) (password ts)
                   (JSON_stringify (runtime srv) (token_payload (runtime srv) (uid u) None)) = Some tok"
    and inv: "\<forall>s h. createCipher (runtime srv) (algorithm ts) (password ts) s = Some h \<longrightarrow>
                   createDecipher (runtime srv) (algorithm ts) (password ts) h = Some s"
    and json: "JSON_parse (runtime srv)
                 (JSON_stringify (runtime srv) (token_payload (runtime srv) (uid u) None))
               = Some (token_payload (runtime srv) (uid u) None)"
    and req: "body_token (body r) = tok"
    and clock: "0 \<le> now'"
  shows "mintToken (runtime srv) ts now u = Some tok
       \<and> (confirmEmailEnabled srv \<and> confirmEmailToken (authentication (settings srv)) = Some ts \<and>
          \<not> isConfirmed u \<longrightarrow>
            (\<exists>template. message_template srv confirmEmail_message = Some template \<and>
               sendConfirmEmail srv now u w =
                 (Inr (send_error (collab srv) (formatMessage (runtime srv) template u tok)),
                  emit (EvSend (formatMessage (runtime srv) template u tok)) w)))
       \<and> (confirmEmailEnabled srv \<and> resetPasswordToken (authentication (settings srv)) = Some ts \<and>
          message_template srv passwordResetRequest = Some template' \<longrightarrow>
            sendResetPassword srv now u w =
              (Inr (send_error (collab srv) (formatMessage (runtime srv) template' u tok)),
               emit (EvSend (formatMessage (runtime srv) template' u tok)) w))
       \<and> (resetPasswordToken (authentication (settings srv)) = Some ts \<longrightarrow>
            resetPassword srv now' r w' = (Responded (ServerError ''Bad Request'' 400), w'))
       \<and> (confirmEmailToken (authentication (settings srv)) = Some ts \<longrightarrow>
            confirmEmail srv now' r w' = (Responded (ServerError ''Bad Request'' 400), w'))"
proof -
  let ?P = "token_payload (runtime srv) (uid u) None"
  have mint: "mintToken (runtime srv) ts now u = Some tok"
    using ttl cipher by (simp add: mintToken_def)
  have sc: "confirmEmailEnabled srv \<and> confirmEmailToken (authentication (settings srv)) = Some ts \<and>
          \<not> isConfirmed u \<longrightarrow>
            (\<exists>template. message_template srv confirmEmail_message = Some template \<and>
               sendConfirmEmail srv now u w =
                 (Inr (send_error (collab srv) (formatMessage (runtime srv) template u tok)),
                  emit (EvSend (formatMessage (runtime srv) template u tok)) w))"
    using sendConfirmEmail_sends [where w = w, OF _ _ _ mint] by blast
  have sr: "confirmEmailEnabled srv \<and> resetPasswordToken (authentication (settings srv)) = Some ts \<and>
          message_template srv passwordResetRequest = Some template' \<longrightarrow>
            sendResetPassword srv now u w =
              (Inr (send_error (collab srv) (formatMessage (runtime srv) template' u tok)),
               emit (EvSend (formatMessage (runtime srv) template' u tok)) w)"
    using sendResetPassword_sends [where w = w, OF _ _ _ mint] by blast
  from inv cipher
  have dec: "createDecipher (runtime srv) (algorithm ts) (password ts) tok = Some (JSON_stringify (runtime srv) ?P)"
    by blast
  have d: "decodeToken (runtime srv) ts tok = Inr ?P"
    using dec json by (simp add: decodeToken_def)
  have x: "tokenExpired (runtime srv) now' ?P = Inr True"
    using clock by (simp add: tokenExpired_def token_payload_def)
  have v: "(resetPasswordToken (authentication (settings srv)) = Some ts \<longrightarrow>
            resetPassword srv now' r w' = (Responded (ServerError ''Bad Request'' 400), w'))
       \<and> (confirmEmailToken (authentication (settings srv)) = Some ts \<longrightarrow>
            confirmEmail srv now' r w' = (Responded (ServerError ''Bad Request'' 400), w'))"
    using d x req by (simp add: resetPassword_def confirmEmail_def)
  from mint sc sr v show ?thesis by simp
qed

theorem missing_ttl_token_rejected_witness:
  "timeout no_ttl_token = None \<and>
   mintToken (runtime no_ttl_server) no_ttl_token 0 alice = Some no_ttl_token_string \<and>
   sendConfirmEmail no_ttl_server 0 alice demo_world =
     (Inr None,
      demo_world\<lparr>trace := [EvSend (formatMessage (runtime no_ttl_server) demo_template alice
                                     no_ttl_token_string)]\<rparr>) \<and>
   sendResetPassword no_ttl_server 0 alice demo_world =
     (Inr None,
      demo_world\<lparr>trace := [EvSend (formatMessage (runtime no_ttl_server) demo_template alice
                                     no_ttl_token_string)]\<rparr>) \<and>
   resetPassword no_ttl_server 1 (token_request no_ttl_token_string) demo_world =
     (Responded (ServerError ''Bad Request'' 400), demo_world) \<and>
   confirmEmail no_ttl_server 1 (token_request no_ttl_token_string) demo_world =
     (Responded (ServerError ''Bad Request'' 400), demo_world)"
proof -
  have h1: "timeout no_ttl_token = None" by (simp add: no_ttl_token_def)
  have h2: "createCipher (runtime no_ttl_server) (algorithm no_ttl_token) (password no_ttl_token)
              (JSON_stringify (runtime no_ttl_server)
                 (token_payload (runtime no_ttl_server) (uid alice) None)) = Some no_ttl_token_string"
    using no_ttl_mint by (simp add: mintToken_def h1)
  have h4: "JSON_parse (runtime no_ttl_server)
              (JSON_stringify (runtime no_ttl_server)
                 (token_payload (runtime no_ttl_server) (uid alice) None))
            = Some (token_payload (runtime no_ttl_server) (uid alice) None)"
    by (simp add: token_payload_def no_ttl_server_def demo_defs)
  have h5: "body_token (body (token_request no_ttl_token_string)) = no_ttl_token_string"
    by (simp add: token_request_def demo_request_def demo_body_def)
  have h6: "(0::int) \<le> 1" by simp
  have u: "\<not> isConfirmed alice" by (simp add: alice_def)
  have se: "send_error (collab no_ttl_server) m = None" for m
    by (simp add: no_ttl_server_def demo_server_def demo_collab_def)
  have em: "emit ev demo_world = demo_world\<lparr>trace := [ev]\<rparr>" for ev
    by (simp add: emit_def demo_world_def)
  from missing_ttl_token_rejected [OF h1 h2 no_ttl_cipher_inverse h4 h5 h6,
      of 0 demo_world demo_template demo_world]
    no_ttl_tokens no_ttl_enabled h1 u
  show ?thesis by (simp add: se em)
qed

text \<open>
  C7 as stated asks that a missing timeout be treated as a configuration error. With no
  timeout configured a reset request for \<open>alice\<close> succeeds: the token is minted, the
  notification is sent and the answer is \<^verbatim>\<open>true\<close>.
\<close>

theorem missing_ttl_counterexample:
  "timeout no_ttl_token = None \<and>
   resetPasswordToken (authentication (settings no_ttl_server)) = Some no_ttl_token \<and>
   resetPasswordRequest no_ttl_server 0 demo_request demo_world =
     (Responded (ServerResult (PBool True)),
      demo_world\<lparr>trace := [EvFindOne ''a@b.com'',
         EvSend (formatMessage (runtime no_ttl_server) demo_template alice no_ttl_token_string)]\<rparr>)"
  by (simp add: resetPasswordRequest_def sendResetPassword_def mintToken_def token_payload_def
      no_ttl_server_def no_ttl_token_def no_ttl_token_string_def demo_defs confirmEmailEnabled_def
      findOne_def emit_def mail_send_def message_template_def Let_def)


subsection \<open>Registration\<close>

text \<open>
  C8. \<^verbatim>\<open>create\<close> sets two grants on the new document before the credential store
  persists it, but the owner's grant is set with the document itself in the place of a
  key. The grant is stored under the string the document turns into, not under the key of
  the account, \<^verbatim>\<open>user:\<close> followed by its id. After a registration that succeeds, the
  stored account has the grant of \<^verbatim>\<open>role:admin\<close> and no grant under its own key.
\<close>

theorem register_owner_grant_misplaced:
  "fst (create demo_server 5 carol_request demo_world) =
     Responded (ServerResult (PUser (carol_stored\<lparr>hash := []\<rparr>))) \<and>
   users (snd (create demo_server 5 carol_request demo_world)) = [alice, carol_stored] \<and>
   document_toString (collab demo_server) carol = ''{ email: carol@localhost, _id: u3 }'' \<and>
   access_key carol_stored = ''user:u3'' \<and>
   getAccess carol_stored ''role:admin'' = [''read'', ''write'', ''delete''] \<and>
   getAccess carol_stored ''{ email: carol@localhost, _id: u3 }'' = [''read'', ''write'', ''delete''] \<and>
   getAccess carol_stored (access_key carol_stored) = [] \<and>
   \<not> has_grants carol_stored"
proof -
  have c: "create demo_server 5 carol_request demo_world =
     (Responded (ServerResult (PUser (carol_stored\<lparr>hash := []\<rparr>))),
      \<lparr>users = [alice, carol_stored], session = None,
        trace = [EvRegister (carol\<lparr>acl := acl carol_stored\<rparr>),
                 EvSend (formatMessage (runtime demo_server) demo_template
                           (carol_stored\<lparr>hash := []\<rparr>) ''knull'')]\<rparr>)"
    by (simp add: create_def register_def stamp_def sendConfirmEmail_def mintToken_def
        token_payload_def TimeClip_def confirmEmailEnabled_def message_template_def mail_send_def
        emit_def Let_def setAccess_def carol_request_def carol_stored_def carol_def demo_defs)
  have g: "getAccess carol_stored (access_key carol_stored) = []"
    "getAccess carol_stored ''role:admin'' = [''read'', ''write'', ''delete'']"
    "getAccess carol_stored ''{ email: carol@localhost, _id: u3 }'' = [''read'', ''write'', ''delete'']"
    "access_key carol_stored = ''user:u3''"
    by (simp_all add: getAccess_def access_key_def carol_stored_def carol_def alice_def)
  have d: "document_toString (collab demo_server) carol = ''{ email: carol@localhost, _id: u3 }''"
    by (simp add: carol_def demo_defs)
  from g have n: "\<not> has_grants carol_stored" by (simp add: has_grants_def)
  from c g d n show ?thesis by simp
qed

subsection \<open>The confirmation flag over sequences of requests\<close>









lemma stamp_keeps [simp]:
  "uid (stamp now u) = uid u" "isConfirmed (stamp now u) = isConfirmed u"
  by (simp_all add: stamp_def split: option.splits)






lemma setPassword_result:
  "setPassword srv u pw w = (Inr (Some u1), w1) \<Longrightarrow>
   uid u1 = uid u \<and> isConfirmed u1 = isConfirmed u \<and> users w1 = users w"
  by (auto simp add: setPassword_def emit_def Let_def split: option.splits)

lemma setPassword_users: "users (snd (setPassword srv u pw w)) = users w"
  by (simp add: setPassword_def emit_def Let_def split: option.splits)



























end
